theory Spec2Isabelle
  imports Main "HOL-Library.AList" "HOL-Library.Char_ord" "HOL-Library.List_Lexorder"
begin

section \<open>Values of the gateway core\<close>

text \<open>
  The embedding follows \<^verbatim>\<open>server/dispatcher.go\<close> and \<^verbatim>\<open>server/server.go\<close>.
  Go strings are byte strings (\<^typ>\<open>string\<close>); a pointer that may be \<^verbatim>\<open>nil\<close> is an
  \<^typ>\<open>'a option\<close>; a Go \<^verbatim>\<open>error\<close> result is an option of an error value. Durations
  (\<^verbatim>\<open>time.Since\<close>) are not part of the model: a metric or a histogram observation is
  recorded by its label only.
\<close>

type_synonym header = "(string \<times> string list) list"

text \<open>\<^verbatim>\<open>flux.ServeError\<close>: a struct literal leaves the fields it does not name at their
  zero value (empty string, \<^verbatim>\<open>nil\<close>).\<close>

record ServeError =
  StatusCode :: int
  ErrorCode :: string
  Message :: string
  Header :: header
  CauseError :: "string option"
  Internal :: "string option"

text \<open>Modelled from the spec: the constants of package \<^verbatim>\<open>flux\<close> are declared outside the
  sources; the error taxonomy gives status \<^verbatim>\<open>OK\<close> as 200, \<^verbatim>\<open>NotFound\<close> as 404 and the code
  \<^verbatim>\<open>REQUEST_NOT_FOUND\<close>.\<close>

definition StatusOK :: int where
  "StatusOK = 200"

definition StatusNotFound :: int where
  "StatusNotFound = 404"

definition ErrorCodeRequestNotFound :: string where
  "ErrorCodeRequestNotFound = ''REQUEST_NOT_FOUND''"

text \<open>Decimal rendering of an integer, as \<^verbatim>\<open>%d\<close> of \<^verbatim>\<open>fmt.Sprintf\<close> prints it.\<close>

fun natDigits :: "nat \<Rightarrow> string" where
  "natDigits n =
     (if n < 10 then [''0123456789'' ! n]
      else natDigits (n div 10) @ [''0123456789'' ! (n mod 10)])"

declare natDigits.simps [simp del]

definition Itoa :: "int \<Rightarrow> string" where
  "Itoa i = (if i < 0 then CHR ''-'' # natDigits (nat (- i)) else natDigits (nat i))"

text \<open>A call either returns or panics; a panic carries its value.\<close>

datatype 'a outcome = Returned 'a | Panicked string

datatype Argument =
  Argument (ArgName: string) (Class: string) (Fields: "Argument list")
    (ValueResolver: "string option") (LookupFunc: "string option")

record Service =
  ServiceId :: string
  AliasId :: string
  RpcProto :: string
  Interface :: string
  Method :: string
  Arguments :: "Argument list"

record Endpoint =
  Version :: string
  HttpMethod :: string
  HttpPattern :: string
  Service :: Service
  Permission :: Service
  Attributes :: "(string \<times> string) list"

record Response =
  RespStatusCode :: int
  RespHeaders :: header
  RespBody :: string

record WebContext =
  WebMethod :: string
  WebRequestURI :: string
  WebHeaders :: "(string \<times> string) list"
  WebValues :: "(string \<times> string) list"

text \<open>
  The per-request context. \<open>CtxErr\<close> is \<^verbatim>\<open>ctx.Context().Err()\<close>: \<open>None\<close> while the
  cancellation token is live, the cause once \<^verbatim>\<open>Done()\<close> is closed.
\<close>

record Context =
  RequestId :: string
  CtxEndpoint :: "Endpoint option"
  CtxWebc :: "WebContext option"
  CtxAttributes :: "(string \<times> string) list"
  CtxMetrics :: "string list"
  CtxErr :: "string option"
  CtxResponse :: Response

datatype LogEntry = LogEntry (level: string) (traceId: string) (message: string) (fields: "string list")

text \<open>
  The process-wide state a request can reach: \<open>plug\<close> is whatever the plugged-in
  components own (transport connections, the HTTP reply, filter caches), then the
  dispatcher's three Prometheus vectors and the log.
\<close>

record 'x Process =
  plug :: 'x
  EndpointAccess :: "string \<times> string \<times> string \<Rightarrow> nat"
  EndpointError :: "string \<times> string \<times> string \<times> string \<Rightarrow> nat"
  RouteDuration :: "(string \<times> string) list"
  logs :: "LogEntry list"

record 'x View =
  ctx :: Context
  proc :: "'x Process"

type_synonym ('x, 'a) action = "'x View \<Rightarrow> 'a outcome \<times> 'x View"

type_synonym 'x FilterInvoker = "('x, ServeError option) action"

record 'x Filter =
  FilterId :: string
  DoFilter :: "'x FilterInvoker \<Rightarrow> 'x FilterInvoker"

record 'x FilterSelector =
  Activate :: "('x, bool) action"
  DoSelect :: "('x, 'x Filter list) action"

text \<open>The extension registries of package \<^verbatim>\<open>ext\<close> that \<^verbatim>\<open>Route\<close> reads.\<close>

record 'x Extensions =
  GlobalFilters :: "'x Filter list"
  FilterSelectors :: "'x FilterSelector list"
  TransporterByProto :: "string \<Rightarrow> ('x, unit) action option"

section \<open>Sequencing, panics and deferred calls\<close>

definition bindP :: "('s \<Rightarrow> 'a outcome \<times> 's) \<Rightarrow> ('a \<Rightarrow> 's \<Rightarrow> 'b outcome \<times> 's) \<Rightarrow> 's \<Rightarrow> 'b outcome \<times> 's" where
  "bindP m k s = (case m s of (Returned a, s') \<Rightarrow> k a s' | (Panicked p, s') \<Rightarrow> (Panicked p, s'))"

text \<open>A deferred call runs when the function leaves, by return or by panic.\<close>

definition deferP :: "('s \<Rightarrow> 's) \<Rightarrow> ('s \<Rightarrow> 'a outcome \<times> 's) \<Rightarrow> 's \<Rightarrow> 'a outcome \<times> 's" where
  "deferP d m s = (case m s of (r, s') \<Rightarrow> (r, d s'))"

section \<open>The dispatcher\<close>

definition AddMetric :: "string \<Rightarrow> 'x View \<Rightarrow> 'x View" where
  "AddMetric label v = v\<lparr>ctx := (ctx v)\<lparr>CtxMetrics := CtxMetrics (ctx v) @ [label]\<rparr>\<rparr>"

definition addLog :: "LogEntry \<Rightarrow> 'x Process \<Rightarrow> 'x Process" where
  "addLog e p = p\<lparr>logs := logs p @ [e]\<rparr>"

definition Inc :: "('k \<Rightarrow> nat) \<Rightarrow> 'k \<Rightarrow> ('k \<Rightarrow> nat)" where
  "Inc c k = c(k := Suc (c k))"

text \<open>\<^verbatim>\<open>Dispatcher.walk\<close>: the loop runs \<open>i\<close> from \<open>len(filters) - 1\<close> down to \<open>0\<close>;
  \<open>walk_from n\<close> is the loop with \<open>n = i + 1\<close> iterations left.\<close>

fun walk_from :: "nat \<Rightarrow> 'x FilterInvoker \<Rightarrow> 'x Filter list \<Rightarrow> 'x FilterInvoker" where
  "walk_from 0 next filters = next"
| "walk_from (Suc i) next filters = walk_from i (DoFilter (filters ! i) next) filters"

definition walk :: "'x FilterInvoker \<Rightarrow> 'x Filter list \<Rightarrow> 'x FilterInvoker" where
  "walk next filters = walk_from (length filters) next filters"

text \<open>\<^verbatim>\<open>ctx.Service()\<close> reads the service of the bound endpoint; on a context with no
  endpoint (a \<^verbatim>\<open>nil\<close> pointer) the dereference panics.\<close>

definition nilEndpoint :: string where
  "nilEndpoint = ''runtime error: invalid memory address or nil pointer dereference''"

definition canceledError :: "string \<Rightarrow> ServeError" where
  "canceledError cause =
     \<lparr>StatusCode = StatusOK, ErrorCode = ''ROUTE:TRANSPORT/B:CANCELED'', Message = [],
      Header = [], CauseError = Some cause, Internal = None\<rparr>"

definition unknownProtocolError :: "string \<Rightarrow> ServeError" where
  "unknownProtocolError proto =
     \<lparr>StatusCode = StatusNotFound, ErrorCode = ErrorCodeRequestNotFound,
      Message = ''ROUTE:UNKNOWN_PROTOCOL:'' @ proto,
      Header = [], CauseError = None, Internal = None\<rparr>"

text \<open>
  The \<^verbatim>\<open>transport\<close> closure of \<^verbatim>\<open>Route\<close>. The \<^verbatim>\<open>select\<close> takes the \<^verbatim>\<open>Done()\<close> case
  exactly when the token is cancelled. After it the \<^verbatim>\<open>transporter\<close> metric is deferred,
  the transporter is looked up by protocol, and the histogram observation follows the
  call of \<^verbatim>\<open>Transport\<close> (a panic of the transporter skips it).
\<close>

definition transportCall :: "'x Extensions \<Rightarrow> ('x, ServeError option) action" where
  "transportCall ex v =
     (case CtxEndpoint (ctx v) of
        None \<Rightarrow> (Panicked nilEndpoint, v)
      | Some ep \<Rightarrow>
          (let proto = RpcProto (Service ep) in
           case TransporterByProto ex proto of
             None \<Rightarrow>
               (Returned (Some (unknownProtocolError proto)),
                v\<lparr>proc := addLog (LogEntry ''error'' (RequestId (ctx v))
                    ''SERVER:ROUTE:UNSUPPORTED_PROTOCOL'' [proto]) (proc v)\<rparr>)
           | Some transporter \<Rightarrow>
               (case transporter v of
                  (Panicked p, v') \<Rightarrow> (Panicked p, v')
                | (Returned u, v') \<Rightarrow>
                    (Returned None,
                     v'\<lparr>proc := (proc v')\<lparr>RouteDuration :=
                        RouteDuration (proc v') @ [(''Transporter'', proto)]\<rparr>\<rparr>))))"

definition transport :: "'x Extensions \<Rightarrow> 'x FilterInvoker" where
  "transport ex v =
     (case CtxErr (ctx v) of
        Some cause \<Rightarrow> (Returned (Some (canceledError cause)), v)
      | None \<Rightarrow> deferP (AddMetric ''transporter'') (transportCall ex) v)"

text \<open>\<^verbatim>\<open>doMetricEndpointFunc\<close>: one access increment, and one error increment labelled
  with the error code when the chain returned an error.\<close>

definition doMetricEndpointFunc :: "ServeError option \<Rightarrow> ('x, ServeError option) action" where
  "doMetricEndpointFunc err v =
     (case CtxEndpoint (ctx v) of
        None \<Rightarrow> (Panicked nilEndpoint, v)
      | Some ep \<Rightarrow>
          (let service = Service ep;
               proto = RpcProto service; uri = Interface service; method = Method service;
               p1 = (proc v)\<lparr>EndpointAccess := Inc (EndpointAccess (proc v)) (proto, uri, method)\<rparr>;
               p2 = (case err of
                       None \<Rightarrow> p1
                     | Some e \<Rightarrow> p1\<lparr>EndpointError :=
                         Inc (EndpointError p1) (proto, uri, method, ErrorCode e)\<rparr>)
           in (Returned err, v\<lparr>proc := p2\<rparr>)))"

text \<open>The selector loop of \<^verbatim>\<open>Route\<close>, with the slice \<^verbatim>\<open>selective\<close> as accumulator.\<close>

fun selectFilters :: "'x FilterSelector list \<Rightarrow> 'x Filter list \<Rightarrow> ('x, 'x Filter list) action" where
  "selectFilters [] selective v = (Returned selective, v)"
| "selectFilters (selector # rest) selective v =
     (case Activate selector v of
        (Panicked p, v') \<Rightarrow> (Panicked p, v')
      | (Returned False, v') \<Rightarrow> selectFilters rest selective v'
      | (Returned True, v') \<Rightarrow>
          (case DoSelect selector v' of
             (Panicked p, v'') \<Rightarrow> (Panicked p, v'')
           | (Returned fs, v'') \<Rightarrow> selectFilters rest (selective @ fs) v''))"

text \<open>\<^verbatim>\<open>Dispatcher.Route\<close>: the \<^verbatim>\<open>route\<close> metric is deferred first; the chain is built
  over \<^verbatim>\<open>append(ext.GlobalFilters(), selective...)\<close> and its result goes through
  \<^verbatim>\<open>doMetricEndpointFunc\<close>.\<close>

definition routeChain :: "'x Extensions \<Rightarrow> 'x Filter list \<Rightarrow> ('x, ServeError option) action" where
  "routeChain ex selective v =
     bindP (walk (transport ex) (GlobalFilters ex @ selective)) doMetricEndpointFunc
       (AddMetric ''selector'' v)"

definition Route :: "'x Extensions \<Rightarrow> ('x, ServeError option) action" where
  "Route ex = deferP (AddMetric ''route'') (bindP (selectFilters (FilterSelectors ex) []) (routeChain ex))"

section \<open>The serve engine: one request\<close>

text \<open>
  What a web handler returns: a Go \<^verbatim>\<open>error\<close> that is either the \<^verbatim>\<open>*flux.ServeError\<close> of
  the route or the error of the response writer.
\<close>

datatype HandlerError = ServeErr ServeError | WriterErr string

text \<open>
  The fields of \<^verbatim>\<open>HttpServeEngine\<close> a request uses. \<open>router\<close> is the dispatcher above
  (its \<^verbatim>\<open>Route\<close> reads the extension registries), \<open>ctxFactory\<close> is what
  \<^verbatim>\<open>ctxPool.New\<close> allocates. \<open>MergeHeader\<close> is the method of \<^verbatim>\<open>flux.ServeError\<close> the
  handler calls; package \<^verbatim>\<open>flux\<close> is outside the sources, so it is a parameter.
\<close>

record 'x Engine =
  router :: "'x Extensions"
  ctxHooks :: "(WebContext \<Rightarrow> ('x, unit) action) list"
  responseWriter :: "WebContext \<Rightarrow> string \<Rightarrow> header \<Rightarrow> int \<Rightarrow> string \<Rightarrow>
                     'x Process \<Rightarrow> string option outcome \<times> 'x Process"
  versionLookup :: "WebContext \<Rightarrow> string"
  ctxFactory :: Context
  MergeHeader :: "ServeError \<Rightarrow> header \<Rightarrow> ServeError"

datatype PoolEvent = AcquireContext | ReleaseContext

text \<open>
  The engine's own state: the process state, the free list of \<^verbatim>\<open>ctxPool\<close> (a
  \<^verbatim>\<open>sync.Pool\<close>, taken here as a stack), and the journal of the calls of
  \<^verbatim>\<open>acquireContext\<close> and \<^verbatim>\<open>releaseContext\<close>.
  The pool is an unexported field: hooks, filters, transporters and writers work on a
  \<^typ>\<open>'x View\<close> or a \<^typ>\<open>'x Process\<close> and cannot reach it.
\<close>

record 'x EngineState =
  process :: "'x Process"
  ctxPool :: "Context list"
  poolEvents :: "PoolEvent list"

text \<open>Modelled from the spec: \<^verbatim>\<open>DefaultContext.Reattach\<close> and \<^verbatim>\<open>DefaultContext.Release\<close> are
  not among the sources. Reattach resets the request id, binds the endpoint and the web
  context, clears metrics, attributes and response and installs a fresh cancellation
  token; Release clears the references (endpoint, web context, attributes).\<close>

definition Reattach :: "string \<Rightarrow> WebContext \<Rightarrow> Endpoint \<Rightarrow> Context \<Rightarrow> Context" where
  "Reattach requestId webc endpoint c =
     c\<lparr>RequestId := requestId, CtxEndpoint := Some endpoint, CtxWebc := Some webc,
       CtxAttributes := [], CtxMetrics := [], CtxErr := None,
       CtxResponse := \<lparr>RespStatusCode = 0, RespHeaders = [], RespBody = []\<rparr>\<rparr>"

definition Release :: "Context \<Rightarrow> Context" where
  "Release c = c\<lparr>CtxEndpoint := None, CtxWebc := None, CtxAttributes := []\<rparr>"

definition acquireContext ::
  "'x Engine \<Rightarrow> string \<Rightarrow> WebContext \<Rightarrow> Endpoint \<Rightarrow> 'x EngineState \<Rightarrow> Context \<times> 'x EngineState" where
  "acquireContext eng requestId webc endpoint st =
     (case ctxPool st of
        [] \<Rightarrow> (Reattach requestId webc endpoint (ctxFactory eng),
               st\<lparr>poolEvents := poolEvents st @ [AcquireContext]\<rparr>)
      | c # free \<Rightarrow> (Reattach requestId webc endpoint c,
               st\<lparr>ctxPool := free, poolEvents := poolEvents st @ [AcquireContext]\<rparr>))"

definition releaseContext :: "Context \<Rightarrow> 'x EngineState \<Rightarrow> 'x EngineState" where
  "releaseContext c st =
     st\<lparr>ctxPool := Release c # ctxPool st, poolEvents := poolEvents st @ [ReleaseContext]\<rparr>"

definition traceLog :: "string \<Rightarrow> string list \<Rightarrow> 'x View \<Rightarrow> 'x View" where
  "traceLog msg kv v = v\<lparr>proc := addLog (LogEntry ''info'' (RequestId (ctx v)) msg kv) (proc v)\<rparr>"

text \<open>The closure \<^verbatim>\<open>endcall\<close>; of its fields the log entry keeps the response code.\<close>

definition endcall :: "int \<Rightarrow> 'x View \<Rightarrow> 'x View" where
  "endcall code v =
     v\<lparr>proc := addLog (LogEntry ''info'' (RequestId (ctx v)) ''HttpServeEngine route end''
        [Itoa code]) (proc v)\<rparr>"

fun runHooks :: "(WebContext \<Rightarrow> ('x, unit) action) list \<Rightarrow> WebContext \<Rightarrow> ('x, unit) action" where
  "runHooks [] webc v = (Returned (), v)"
| "runHooks (hook # hooks) webc v =
     (case hook webc v of
        (Panicked p, v') \<Rightarrow> (Panicked p, v')
      | (Returned u, v') \<Rightarrow> runHooks hooks webc v')"

text \<open>
  \<^verbatim>\<open>HandleEndpointRequest\<close> from the log of the route start to its \<^verbatim>\<open>return\<close>: the
  hooks, the route, and either the error (with \<^verbatim>\<open>endcall\<close> deferred on its status) or
  the response writer (with \<^verbatim>\<open>endcall\<close> deferred on the response's status).
\<close>

definition routeAndRespond :: "'x Engine \<Rightarrow> WebContext \<Rightarrow> string \<Rightarrow> ('x, HandlerError option) action" where
  "routeAndRespond eng webc requestId v =
     (case runHooks (ctxHooks eng) webc (traceLog ''HttpServeEngine route start'' [] v) of
        (Panicked p, v1) \<Rightarrow> (Panicked p, v1)
      | (Returned u, v1) \<Rightarrow>
          (case Route (router eng) v1 of
             (Panicked p, v2) \<Rightarrow> (Panicked p, v2)
           | (Returned (Some err), v2) \<Rightarrow>
               (Returned (Some (ServeErr (MergeHeader eng err (RespHeaders (CtxResponse (ctx v2)))))),
                endcall (StatusCode err)
                  (v2\<lparr>proc := addLog (LogEntry ''error'' (RequestId (ctx v2))
                      ''HttpServeEngine route error'' [ErrorCode err]) (proc v2)\<rparr>))
           | (Returned None, v2) \<Rightarrow>
               (let response = CtxResponse (ctx v2) in
                case responseWriter eng webc requestId (RespHeaders response)
                       (RespStatusCode response) (RespBody response) (proc v2) of
                  (Panicked p, p3) \<Rightarrow>
                    (Panicked p, endcall (RespStatusCode response) (v2\<lparr>proc := p3\<rparr>))
                | (Returned e, p3) \<Rightarrow>
                    (Returned (map_option WriterErr e),
                     endcall (RespStatusCode response) (v2\<lparr>proc := p3\<rparr>)))))"

text \<open>The body of \<^verbatim>\<open>HandleEndpointRequest\<close> under its recovering \<^verbatim>\<open>defer\<close>: the context
  is acquired, \<^verbatim>\<open>releaseContext\<close> is deferred, and the request runs.\<close>

definition handleBody ::
  "'x Engine \<Rightarrow> WebContext \<Rightarrow> string \<Rightarrow> Endpoint \<Rightarrow> 'x EngineState \<Rightarrow>
   HandlerError option outcome \<times> 'x EngineState" where
  "handleBody eng webc requestId endpoint st =
     (case acquireContext eng requestId webc endpoint st of
        (ctxw, st1) \<Rightarrow>
          (case routeAndRespond eng webc requestId \<lparr>ctx = ctxw, proc = process st1\<rparr> of
             (r, v) \<Rightarrow> (r, releaseContext (ctx v) (st1\<lparr>process := proc v\<rparr>))))"

text \<open>
  \<^verbatim>\<open>HandleEndpointRequest\<close>: the first \<^verbatim>\<open>defer\<close> recovers a panic and logs the panic
  value and \<^verbatim>\<open>debug.Stack()\<close> under the request id. The result of the function is
  unnamed, so after a recovered panic the function returns the zero value \<^verbatim>\<open>nil\<close>.
\<close>

definition recoverLog :: "string \<Rightarrow> string \<Rightarrow> 'x Process \<Rightarrow> 'x Process" where
  "recoverLog requestId p pr =
     addLog (LogEntry ''error'' requestId ''debug.Stack'' [])
       (addLog (LogEntry ''error'' requestId ''HttpServeEngine panics'' [p]) pr)"

definition HandleEndpointRequest ::
  "'x Engine \<Rightarrow> WebContext \<Rightarrow> string \<Rightarrow> Endpoint \<Rightarrow> 'x EngineState \<Rightarrow>
   HandlerError option \<times> 'x EngineState" where
  "HandleEndpointRequest eng webc requestId endpoint st =
     (case handleBody eng webc requestId endpoint st of
        (Returned r, st') \<Rightarrow> (r, st')
      | (Panicked p, st') \<Rightarrow> (None, st'\<lparr>process := recoverLog requestId p (process st')\<rparr>))"

section \<open>The serve engine: version selection\<close>

type_synonym MultiEndpoint = "(string \<times> Endpoint) list"


definition Update :: "string \<Rightarrow> Endpoint \<Rightarrow> MultiEndpoint \<Rightarrow> MultiEndpoint" where
  "Update version endpoint mve = AList.update version endpoint mve"

definition Delete :: "string \<Rightarrow> MultiEndpoint \<Rightarrow> MultiEndpoint" where
  "Delete version mve = AList.delete version mve"



definition DefaultHttpHeaderVersion :: string where
  "DefaultHttpHeaderVersion = ''X-Version''"


definition HeaderValue :: "WebContext \<Rightarrow> string \<Rightarrow> string" where
  "HeaderValue webc key = (case map_of (WebHeaders webc) key of None \<Rightarrow> [] | Some s \<Rightarrow> s)"


section \<open>The serve engine: discovery events\<close>

datatype EventType = EventTypeAdded | EventTypeUpdated | EventTypeRemoved | EventTypeUnknown


datatype BackendServiceEvent = BackendServiceEvent EventType Service

text \<open>
  The state the two event loops write: the route table (route key to multi-version
  endpoint), the handlers bound on the public web server (method, pattern and the route
  key of the multi-version endpoint the handler closes over), the handlers bound on the
  manage web server (method, pattern and the endpoint the handler closes over), the
  service directory of package \<^verbatim>\<open>ext\<close>, and the log.
\<close>

record RegistryState =
  routes :: "string \<rightharpoonup> MultiEndpoint"
  httpHandlers :: "(string \<times> string \<times> string) list"
  manageHandlers :: "(string \<times> string \<times> Endpoint) list"
  services :: "string \<rightharpoonup> Service"
  eventLogs :: "LogEntry list"

text \<open>The argument extensions of package \<^verbatim>\<open>ext\<close>; a resolver or lookup function is
  named by a string.\<close>

record Resolvers =
  LoadMTValueResolver :: "string \<Rightarrow> string"
  LoadArgumentLookupFunc :: string

fun initArgument :: "Resolvers \<Rightarrow> Argument \<Rightarrow> Argument" where
  "initArgument r (Argument name cls nested resolver lookup) =
     Argument name cls (map (initArgument r) nested)
       (Some (LoadMTValueResolver r cls)) (Some (LoadArgumentLookupFunc r))"

definition initArguments :: "Resolvers \<Rightarrow> Argument list \<Rightarrow> Argument list" where
  "initArguments r args = map (initArgument r) args"






definition eventLog :: "string \<Rightarrow> string \<Rightarrow> string list \<Rightarrow> RegistryState \<Rightarrow> RegistryState" where
  "eventLog lvl msg kv st = st\<lparr>eventLogs := eventLogs st @ [LogEntry lvl [] msg kv]\<rparr>"








text \<open>Modelled from the spec: the service directory of package \<^verbatim>\<open>ext\<close> is outside the
  sources. It is keyed by service id; \<^verbatim>\<open>StoreBackendService\<close> stores under the
  \<^verbatim>\<open>ServiceId\<close> of the service, \<^verbatim>\<open>StoreBackendServiceById\<close> under the given id, and
  \<^verbatim>\<open>RemoveBackendService\<close> removes the entry of the given id.\<close>

definition StoreBackendServiceById :: "string \<Rightarrow> Service \<Rightarrow> RegistryState \<Rightarrow> RegistryState" where
  "StoreBackendServiceById key service st = st\<lparr>services := (services st)(key \<mapsto> service)\<rparr>"

definition StoreBackendService :: "Service \<Rightarrow> RegistryState \<Rightarrow> RegistryState" where
  "StoreBackendService service st = StoreBackendServiceById (ServiceId service) service st"

definition RemoveBackendService :: "string \<Rightarrow> RegistryState \<Rightarrow> RegistryState" where
  "RemoveBackendService key st = st\<lparr>services := (services st)(key := None)\<rparr>"

definition storeWithAlias :: "Service \<Rightarrow> RegistryState \<Rightarrow> RegistryState" where
  "storeWithAlias service st =
     (let st1 = StoreBackendService service st in
      if AliasId service \<noteq> [] then StoreBackendServiceById (AliasId service) service st1 else st1)"

definition HandleBackendServiceEvent :: "Resolvers \<Rightarrow> BackendServiceEvent \<Rightarrow> RegistryState \<Rightarrow> RegistryState" where
  "HandleBackendServiceEvent r event st =
     (case event of
        BackendServiceEvent etype svc \<Rightarrow>
          (let service = svc\<lparr>Arguments := initArguments r (Arguments svc)\<rparr> in
           case etype of
             EventTypeAdded \<Rightarrow>
               storeWithAlias service
                 (eventLog ''info'' ''New service'' [ServiceId service, AliasId service] st)
           | EventTypeUpdated \<Rightarrow>
               storeWithAlias service
                 (eventLog ''info'' ''Update service'' [ServiceId service, AliasId service] st)
           | EventTypeRemoved \<Rightarrow>
               (let st1 = RemoveBackendService (ServiceId service)
                            (eventLog ''info'' ''Delete service''
                               [ServiceId service, AliasId service] st)
                in if AliasId service \<noteq> [] then RemoveBackendService (AliasId service) st1
                   else st1)
           | EventTypeUnknown \<Rightarrow> st))"

section \<open>Configuration\<close>

datatype ConfigValue = CfgString string | CfgInt int | CfgBool bool

text \<open>Modelled from the spec: \<^verbatim>\<open>flux.Configuration\<close> is outside the sources. A
  configuration holds the keys of one namespace and the defaults installed by
  \<^verbatim>\<open>SetDefaults\<close>; a getter reads the key, then the default, then gives the zero value
  of its type. Conversions between value types are not part of the model: a getter
  gives the zero value for a value of another type, except that \<^verbatim>\<open>GetString\<close> prints
  integers and booleans.\<close>

record Configuration =
  settings :: "string \<rightharpoonup> ConfigValue"
  fallbacks :: "string \<rightharpoonup> ConfigValue"

definition lookupValue :: "Configuration \<Rightarrow> string \<Rightarrow> ConfigValue option" where
  "lookupValue c key = (case settings c key of Some v \<Rightarrow> Some v | None \<Rightarrow> fallbacks c key)"

definition GetString :: "Configuration \<Rightarrow> string \<Rightarrow> string" where
  "GetString c key =
     (case lookupValue c key of
        Some (CfgString s) \<Rightarrow> s
      | Some (CfgInt i) \<Rightarrow> Itoa i
      | Some (CfgBool b) \<Rightarrow> (if b then ''true'' else ''false'')
      | None \<Rightarrow> [])"

definition GetInt :: "Configuration \<Rightarrow> string \<Rightarrow> int" where
  "GetInt c key = (case lookupValue c key of Some (CfgInt i) \<Rightarrow> i | _ \<Rightarrow> 0)"

definition GetBool :: "Configuration \<Rightarrow> string \<Rightarrow> bool" where
  "GetBool c key = (case lookupValue c key of Some (CfgBool b) \<Rightarrow> b | _ \<Rightarrow> False)"

definition SetDefaults :: "(string \<rightharpoonup> ConfigValue) \<Rightarrow> Configuration \<Rightarrow> Configuration" where
  "SetDefaults d c = c\<lparr>fallbacks := fallbacks c ++ d\<rparr>"

text \<open>Modelled from the spec: \<^verbatim>\<open>IsDisabled\<close> is outside the sources; an entry or a filter is
  disabled by \<^verbatim>\<open>disabled=true\<close>.\<close>

definition IsDisabled :: "Configuration \<Rightarrow> bool" where
  "IsDisabled config = GetBool config ''disabled''"

text \<open>The process configuration: \<^verbatim>\<open>flux.NewConfiguration(ns)\<close> gives the configuration of a
  namespace, and \<^verbatim>\<open>ToConfigurations()\<close> on the namespace \<^verbatim>\<open>dynfilter\<close> gives its entries in
  order.\<close>

record GlobalConfig =
  namespaces :: "string \<Rightarrow> Configuration"
  dynfilterEntries :: "Configuration list"

definition NewConfiguration :: "GlobalConfig \<Rightarrow> string \<Rightarrow> Configuration" where
  "NewConfiguration g ns = namespaces g ns"

section \<open>Dispatcher initialisation\<close>

text \<open>
  A component that \<^verbatim>\<open>Init\<close> loads (a transporter, a filter, an instance made by a
  factory): its filter or type id, its \<^verbatim>\<open>Init(config)\<close> when it implements
  \<^verbatim>\<open>flux.Initializer\<close>, and whether it implements \<^verbatim>\<open>flux.Filter\<close>. A factory is the
  component it makes. The log lines of this part are not kept.
\<close>

record Component =
  ComponentId :: string
  Initializer :: "(Configuration \<Rightarrow> string option outcome) option"
  IsFilter :: bool

text \<open>The factory registry \<^verbatim>\<open>typedFactories\<close> of package \<^verbatim>\<open>ext\<close>. \<^verbatim>\<open>fluxpkg.MustNotEmpty\<close>
  is outside the sources and the spec does not describe it: it is a parameter, a
  function of the string and the message that returns a string or panics.\<close>

record FactoryRegistry =
  typedFactories :: "string \<rightharpoonup> Component"
  MustNotEmpty :: "string \<Rightarrow> string \<Rightarrow> string outcome"

definition FactoryByType :: "FactoryRegistry \<Rightarrow> string \<Rightarrow> Component option outcome" where
  "FactoryByType reg typeName =
     (case MustNotEmpty reg typeName ''typeName is empty'' of
        Panicked p \<Rightarrow> Panicked p
      | Returned name \<Rightarrow> Returned (typedFactories reg name))"

text \<open>\<^verbatim>\<open>AwareConfig\<close>; its field \<^verbatim>\<open>Id\<close> is \<open>FilterID\<close> here.\<close>

record AwareConfig =
  FilterID :: string
  TypeId :: string
  Config :: Configuration
  Factory :: Component

definition dynConfigKeyFilterId :: string where
  "dynConfigKeyFilterId = ''id''"

definition dynConfigKeyFilterType :: string where
  "dynConfigKeyFilterType = ''type''"

definition factoryNotFound :: "string \<Rightarrow> string \<Rightarrow> string" where
  "factoryNotFound filterType filterID =
     ''FilterFactory not found, filter-type: '' @ filterType @ '', filter-id: '' @ filterID"

text \<open>The loop of \<^verbatim>\<open>dynamicFilters\<close> over the entries, with the slice \<^verbatim>\<open>out\<close> as
  accumulator; the result is the error (\<open>Inl\<close>) or the list (\<open>Inr\<close>).\<close>

fun dynamicFiltersFrom ::
  "FactoryRegistry \<Rightarrow> Configuration list \<Rightarrow> AwareConfig list \<Rightarrow> (string + AwareConfig list) outcome" where
  "dynamicFiltersFrom reg [] out = Returned (Inr out)"
| "dynamicFiltersFrom reg (config # rest) out =
     (let filterID = GetString config dynConfigKeyFilterId in
      if filterID = [] then dynamicFiltersFrom reg rest out
      else
        (let filterType = GetString config dynConfigKeyFilterType in
         if IsDisabled config then dynamicFiltersFrom reg rest out
         else
           (case FactoryByType reg filterType of
              Panicked p \<Rightarrow> Panicked p
            | Returned None \<Rightarrow> Returned (Inl (factoryNotFound filterType filterID))
            | Returned (Some factory) \<Rightarrow>
                dynamicFiltersFrom reg rest
                  (out @ [\<lparr>FilterID = filterID, TypeId = filterType, Config = config,
                           Factory = factory\<rparr>]))))"

definition dynamicFilters :: "FactoryRegistry \<Rightarrow> GlobalConfig \<Rightarrow> (string + AwareConfig list) outcome" where
  "dynamicFilters reg g = dynamicFiltersFrom reg (dynfilterEntries g) []"

text \<open>The registries \<^verbatim>\<open>Init\<close> writes (\<^verbatim>\<open>ext.AddHookFunc\<close>, \<^verbatim>\<open>ext.AddSelectiveFilter\<close>) and
  those it reads.\<close>

record InitState =
  hookFuncs :: "Component list"
  selectiveFilters :: "Component list"

record InitExtensions =
  Transporters :: "(string \<times> Component) list"
  StaticGlobalFilters :: "Component list"
  Factories :: FactoryRegistry

definition NamespaceTransporters :: string where
  "NamespaceTransporters = ''transporters''"

definition AddInitHook :: "Component \<Rightarrow> Configuration \<Rightarrow> InitState \<Rightarrow> string option outcome \<times> InitState" where
  "AddInitHook ref config st =
     (case (case Initializer ref of None \<Rightarrow> Returned None | Some init \<Rightarrow> init config) of
        Panicked p \<Rightarrow> (Panicked p, st)
      | Returned (Some err) \<Rightarrow> (Returned (Some err), st)
      | Returned None \<Rightarrow> (Returned None, st\<lparr>hookFuncs := hookFuncs st @ [ref]\<rparr>))"

fun initTransporters ::
  "GlobalConfig \<Rightarrow> (string \<times> Component) list \<Rightarrow> InitState \<Rightarrow> string option outcome \<times> InitState" where
  "initTransporters g [] st = (Returned None, st)"
| "initTransporters g ((proto, transporter) # rest) st =
     (case AddInitHook transporter (NewConfiguration g (NamespaceTransporters @ ''.'' @ proto)) st of
        (Returned None, st') \<Rightarrow> initTransporters g rest st'
      | failed \<Rightarrow> failed)"

fun initStaticFilters ::
  "GlobalConfig \<Rightarrow> Component list \<Rightarrow> InitState \<Rightarrow> string option outcome \<times> InitState" where
  "initStaticFilters g [] st = (Returned None, st)"
| "initStaticFilters g (flt # rest) st =
     (let config = NewConfiguration g (ComponentId flt) in
      if IsDisabled config then initStaticFilters g rest st
      else
        (case AddInitHook flt config st of
           (Returned None, st') \<Rightarrow> initStaticFilters g rest st'
         | failed \<Rightarrow> failed))"

fun initDynamicFilters :: "AwareConfig list \<Rightarrow> InitState \<Rightarrow> string option outcome \<times> InitState" where
  "initDynamicFilters [] st = (Returned None, st)"
| "initDynamicFilters (item # rest) st =
     (let flt = Factory item in
      if IsDisabled (Config item) then initDynamicFilters rest st
      else
        (case AddInitHook flt (Config item) st of
           (Returned None, st') \<Rightarrow>
             initDynamicFilters rest
               (if IsFilter flt
                then st'\<lparr>selectiveFilters := selectiveFilters st' @ [flt]\<rparr>
                else st')
         | failed \<Rightarrow> failed))"

text \<open>\<^verbatim>\<open>Dispatcher.Init\<close>: transporters, then the static filters
  (\<^verbatim>\<open>append(ext.GlobalFilters(), ext.SelectiveFilters()...)\<close>), then the dynamic ones.\<close>

definition Init :: "InitExtensions \<Rightarrow> GlobalConfig \<Rightarrow> InitState \<Rightarrow> string option outcome \<times> InitState" where
  "Init ex g st =
     (case initTransporters g (Transporters ex) st of
        (Returned None, st1) \<Rightarrow>
          (case initStaticFilters g (StaticGlobalFilters ex @ selectiveFilters st1) st1 of
             (Returned None, st2) \<Rightarrow>
               (case dynamicFilters (Factories ex) g of
                  Panicked p \<Rightarrow> (Panicked p, st2)
                | Returned (Inl err) \<Rightarrow> (Returned (Some err), st2)
                | Returned (Inr dynFilters) \<Rightarrow> initDynamicFilters dynFilters st2)
           | failed \<Rightarrow> failed)
      | failed \<Rightarrow> failed)"

section \<open>Starting the servers\<close>

definition HttpWebServerConfigRootName :: string where
  "HttpWebServerConfigRootName = ''HttpWebServer''"

definition HttpWebServerConfigKeyFeatureDebugEnable :: string where
  "HttpWebServerConfigKeyFeatureDebugEnable = ''feature-debug-enable''"

definition HttpWebServerConfigKeyFeatureDebugPort :: string where
  "HttpWebServerConfigKeyFeatureDebugPort = ''feature-debug-port''"

definition HttpWebServerConfigKeyAddress :: string where
  "HttpWebServerConfigKeyAddress = ''address''"

definition HttpWebServerConfigKeyPort :: string where
  "HttpWebServerConfigKeyPort = ''port''"

definition HttpWebServerConfigKeyTlsCertFile :: string where
  "HttpWebServerConfigKeyTlsCertFile = ''tls-cert-file''"

definition HttpWebServerConfigKeyTlsKeyFile :: string where
  "HttpWebServerConfigKeyTlsKeyFile = ''tls-key-file''"

definition HttpWebServerConfigKeyManageAddress :: string where
  "HttpWebServerConfigKeyManageAddress = ''manage-address''"

definition HttpWebServerConfigKeyManagePort :: string where
  "HttpWebServerConfigKeyManagePort = ''manage-port''"

text \<open>The defaults of \<^verbatim>\<open>NewHttpServeEngineOverride\<close>.\<close>

definition serverDefaults :: "string \<rightharpoonup> ConfigValue" where
  "serverDefaults =
     [HttpWebServerConfigKeyFeatureDebugEnable \<mapsto> CfgBool False,
      HttpWebServerConfigKeyFeatureDebugPort \<mapsto> CfgInt 9527,
      HttpWebServerConfigKeyAddress \<mapsto> CfgString ''0.0.0.0'',
      HttpWebServerConfigKeyPort \<mapsto> CfgInt 8080]"

datatype WebServerId = manageWebServer | httpWebServer

text \<open>
  What \<^verbatim>\<open>StartServe\<close> depends on: \<^verbatim>\<open>s.config\<close>, whether the web servers exist (the
  check of \<^verbatim>\<open>ensure\<close>), and the errors of \<^verbatim>\<open>router.Startup\<close> and of the two watches of
  the registry. The event loops and the serving itself run concurrently and are not
  modelled: the result of \<^verbatim>\<open>StartServe\<close> is here the list of the \<^verbatim>\<open>StartTLS\<close> calls it
  issues (server, address, certificate file, key file), the manage server first.
\<close>

record ServeSetup =
  engineConfig :: Configuration
  webServersCreated :: bool
  routerStartup :: "string option"
  WatchHttpEndpoints :: "string option"
  WatchBackendServices :: "string option"

text \<open>The \<^verbatim>\<open>config\<close> that \<^verbatim>\<open>Initial\<close> builds: the namespace \<^verbatim>\<open>HttpWebServer\<close> with the
  engine's defaults.\<close>

definition initialConfig :: "GlobalConfig \<Rightarrow> Configuration" where
  "initialConfig g = SetDefaults serverDefaults (NewConfiguration g HttpWebServerConfigRootName)"

definition startServer ::
  "WebServerId \<Rightarrow> string \<Rightarrow> int \<Rightarrow> string \<Rightarrow> string \<Rightarrow> WebServerId \<times> string \<times> string \<times> string" where
  "startServer server address port tlscert tlskey = (server, address @ '':'' @ Itoa port, tlscert, tlskey)"

definition StartServe ::
  "ServeSetup \<Rightarrow> Configuration \<Rightarrow> (string + (WebServerId \<times> string \<times> string \<times> string) list) outcome" where
  "StartServe s cfg =
     (if \<not> webServersCreated s then Panicked ''Call must after InitialServer()''
      else
        (case routerStartup s of
           Some err \<Rightarrow> Returned (Inl err)
         | None \<Rightarrow>
             (case WatchHttpEndpoints s of
                Some err \<Rightarrow> Returned (Inl (''start registry watching: '' @ err))
              | None \<Rightarrow>
                  (case WatchBackendServices s of
                     Some err \<Rightarrow> Returned (Inl (''start registry watching: '' @ err))
                   | None \<Rightarrow>
                       (let tlsKeyFile = GetString cfg HttpWebServerConfigKeyTlsKeyFile;
                            tlsCertFile = GetString cfg HttpWebServerConfigKeyTlsCertFile
                        in Returned (Inr
                             [startServer manageWebServer
                                (GetString (engineConfig s) HttpWebServerConfigKeyManageAddress)
                                (GetInt (engineConfig s) HttpWebServerConfigKeyManagePort) [] [],
                              startServer httpWebServer
                                (GetString cfg HttpWebServerConfigKeyAddress)
                                (GetInt cfg HttpWebServerConfigKeyManagePort)
                                tlsCertFile tlsKeyFile]))))))"

definition Startup :: "ServeSetup \<Rightarrow> (string + (WebServerId \<times> string \<times> string \<times> string) list) outcome" where
  "Startup s = StartServe s (engineConfig s)"

section \<open>A concrete gateway\<close>

text \<open>
  Components for evaluating the engine on concrete requests. Their state \<open>plug\<close> is a
  journal: every component appends its name when it runs. \<open>tagFilter\<close> passes the
  request on, \<open>denyFilter\<close> answers \<^verbatim>\<open>403 PERMISSION_DENIED\<close> without calling \<^verbatim>\<open>next\<close>,
  \<open>panicFilter\<close> panics, \<open>disabledFilter\<close> hands \<^verbatim>\<open>next\<close> back as the permission filter
  of package \<^verbatim>\<open>filter\<close> does when disabled, \<open>echoTransporter\<close> writes a reply into the
  response.
\<close>

definition journal :: "string \<Rightarrow> string list View \<Rightarrow> string list View" where
  "journal name v = v\<lparr>proc := (proc v)\<lparr>plug := plug (proc v) @ [name]\<rparr>\<rparr>"

definition tagFilter :: "string \<Rightarrow> string list Filter" where
  "tagFilter name = \<lparr>FilterId = name, DoFilter = (\<lambda>next v. next (journal name v))\<rparr>"

definition permissionDenied :: ServeError where
  "permissionDenied =
     \<lparr>StatusCode = 403, ErrorCode = ''PERMISSION_DENIED'', Message = ''no'',
      Header = [], CauseError = None, Internal = None\<rparr>"

definition denyFilter :: "string \<Rightarrow> string list Filter" where
  "denyFilter name =
     \<lparr>FilterId = name, DoFilter = (\<lambda>next v. (Returned (Some permissionDenied), journal name v))\<rparr>"

definition panicFilter :: "string \<Rightarrow> string list Filter" where
  "panicFilter name =
     \<lparr>FilterId = name, DoFilter = (\<lambda>next v. (Panicked ''boom'', journal name v))\<rparr>"

definition echoTransporter :: "(string list, unit) action" where
  "echoTransporter v =
     (Returned (),
      (journal ''transport'' v)\<lparr>ctx := (ctx v)\<lparr>CtxResponse :=
         \<lparr>RespStatusCode = 200, RespHeaders = [], RespBody = ''pong''\<rparr>\<rparr>\<rparr>)"

definition disabledFilter :: "string \<Rightarrow> string list Filter" where
  "disabledFilter name = \<lparr>FilterId = name, DoFilter = (\<lambda>next. next)\<rparr>"

definition demoSelector :: "string list Filter list \<Rightarrow> string list FilterSelector" where
  "demoSelector selected =
     \<lparr>Activate = (\<lambda>v. (Returned True, v)), DoSelect = (\<lambda>v. (Returned selected, v))\<rparr>"

definition demoExtensions :: "string list Filter list \<Rightarrow> string list Filter list \<Rightarrow> string list Extensions" where
  "demoExtensions globals selected =
     \<lparr>GlobalFilters = globals, FilterSelectors = [demoSelector selected],
      TransporterByProto = (\<lambda>proto. if proto = ''http'' then Some echoTransporter else None)\<rparr>"

definition demoService :: Service where
  "demoService =
     \<lparr>ServiceId = ''svc'', AliasId = ''alias'', RpcProto = ''http'', Interface = ''/upstream'',
      Method = ''GET'', Arguments = []\<rparr>"

definition demoEndpoint :: Endpoint where
  "demoEndpoint =
     \<lparr>Version = ''A'', HttpMethod = ''GET'', HttpPattern = ''/v1/x'', Service = demoService,
      Permission = demoService\<lparr>ServiceId := []\<rparr>, Attributes = []\<rparr>"

definition demoWebc :: WebContext where
  "demoWebc =
     \<lparr>WebMethod = ''GET'', WebRequestURI = ''/v1/x'', WebHeaders = [(''X-Version'', ''Z'')],
      WebValues = [(''X-Request-Id'', ''r1'')]\<rparr>"

definition demoContext :: "string option \<Rightarrow> Context" where
  "demoContext err =
     \<lparr>RequestId = ''r1'', CtxEndpoint = Some demoEndpoint, CtxWebc = Some demoWebc,
      CtxAttributes = [], CtxMetrics = [], CtxErr = err,
      CtxResponse = \<lparr>RespStatusCode = 0, RespHeaders = [], RespBody = []\<rparr>\<rparr>"

definition demoProcess :: "string list Process" where
  "demoProcess =
     \<lparr>plug = [], EndpointAccess = (\<lambda>k. 0), EndpointError = (\<lambda>k. 0), RouteDuration = [],
      logs = []\<rparr>"

definition demoView :: "string option \<Rightarrow> string list View" where
  "demoView err = \<lparr>ctx = demoContext err, proc = demoProcess\<rparr>"

definition panicTransporter :: "(string list, unit) action" where
  "panicTransporter v = (Panicked ''transport down'', journal ''transport'' v)"

definition panicExtensions :: "string list Extensions" where
  "panicExtensions =
     \<lparr>GlobalFilters = [tagFilter ''A''], FilterSelectors = [],
      TransporterByProto = (\<lambda>proto. Some panicTransporter)\<rparr>"

definition demoHook :: "WebContext \<Rightarrow> (string list, unit) action" where
  "demoHook webc v = (Returned (), journal ''hook'' v)"

definition panicHook :: "WebContext \<Rightarrow> (string list, unit) action" where
  "panicHook webc v = (Panicked ''hook failed'', journal ''hook'' v)"

definition demoWriter ::
  "WebContext \<Rightarrow> string \<Rightarrow> header \<Rightarrow> int \<Rightarrow> string \<Rightarrow> string list Process \<Rightarrow>
   string option outcome \<times> string list Process" where
  "demoWriter webc requestId headers status body p = (Returned None, p\<lparr>plug := plug p @ [''write'']\<rparr>)"

definition panicWriter ::
  "WebContext \<Rightarrow> string \<Rightarrow> header \<Rightarrow> int \<Rightarrow> string \<Rightarrow> string list Process \<Rightarrow>
   string option outcome \<times> string list Process" where
  "panicWriter webc requestId headers status body p =
     (Panicked ''broken pipe'', p\<lparr>plug := plug p @ [''write'']\<rparr>)"

definition blankContext :: Context where
  "blankContext =
     \<lparr>RequestId = [], CtxEndpoint = None, CtxWebc = None, CtxAttributes = [], CtxMetrics = [],
      CtxErr = None, CtxResponse = \<lparr>RespStatusCode = 0, RespHeaders = [], RespBody = []\<rparr>\<rparr>"

definition demoEngine ::
  "string list Extensions \<Rightarrow> (WebContext \<Rightarrow> (string list, unit) action) list \<Rightarrow>
   (WebContext \<Rightarrow> string \<Rightarrow> header \<Rightarrow> int \<Rightarrow> string \<Rightarrow> string list Process \<Rightarrow>
      string option outcome \<times> string list Process) \<Rightarrow> string list Engine" where
  "demoEngine ex hooks writer =
     \<lparr>router = ex, ctxHooks = hooks, responseWriter = writer,
      versionLookup = (\<lambda>webc. HeaderValue webc DefaultHttpHeaderVersion),
      ctxFactory = blankContext,
      MergeHeader = (\<lambda>err headers. err\<lparr>Header := Header err @ headers\<rparr>)\<rparr>"

definition demoState :: "string list EngineState" where
  "demoState = \<lparr>process = demoProcess, ctxPool = [], poolEvents = []\<rparr>"

definition demoResolvers :: Resolvers where
  "demoResolvers = \<lparr>LoadMTValueResolver = (\<lambda>cls. ''resolver:'' @ cls), LoadArgumentLookupFunc = ''lookup''\<rparr>"

definition emptyRegistry :: RegistryState where
  "emptyRegistry =
     \<lparr>routes = Map.empty, httpHandlers = [], manageHandlers = [], services = Map.empty,
      eventLogs = []\<rparr>"

definition demoComponent :: "string \<Rightarrow> Component" where
  "demoComponent name = \<lparr>ComponentId = name, Initializer = None, IsFilter = True\<rparr>"

definition demoFactories :: FactoryRegistry where
  "demoFactories =
     \<lparr>typedFactories = [''t1'' \<mapsto> demoComponent ''t1''],
      MustNotEmpty = (\<lambda>s msg. if s = [] then Panicked msg else Returned s)\<rparr>"

definition dynEntry :: "string \<Rightarrow> string \<Rightarrow> bool \<Rightarrow> Configuration" where
  "dynEntry filterId filterType disabled =
     \<lparr>settings = [''id'' \<mapsto> CfgString filterId, ''type'' \<mapsto> CfgString filterType,
                  ''disabled'' \<mapsto> CfgBool disabled],
      fallbacks = Map.empty\<rparr>"

definition demoGlobalConfig :: "Configuration list \<Rightarrow> GlobalConfig" where
  "demoGlobalConfig entries =
     \<lparr>namespaces = (\<lambda>ns. \<lparr>settings = Map.empty, fallbacks = Map.empty\<rparr>),
      dynfilterEntries = entries\<rparr>"

definition demoInitExtensions :: InitExtensions where
  "demoInitExtensions =
     \<lparr>Transporters = [(''http'', demoComponent ''http'')],
      StaticGlobalFilters = [demoComponent ''permission_filter''],
      Factories = demoFactories\<rparr>"

definition demoServeSetup :: "(string \<rightharpoonup> ConfigValue) \<Rightarrow> ServeSetup" where
  "demoServeSetup file =
     \<lparr>engineConfig = initialConfig
        \<lparr>namespaces = (\<lambda>ns. \<lparr>settings = file, fallbacks = Map.empty\<rparr>), dynfilterEntries = []\<rparr>,
      webServersCreated = True, routerStartup = None, WatchHttpEndpoints = None,
      WatchBackendServices = None\<rparr>"

section \<open>The filter chain\<close>

lemma walk_from_foldr:
  "n \<le> length fs \<Longrightarrow> walk_from n next fs = foldr DoFilter (take n fs) next"
proof (induction n arbitrary: "next")
  case 0
  then show ?case by simp
next
  case (Suc n)
  then have "n < length fs" by simp
  then have "take (Suc n) fs = take n fs @ [fs ! n]"
    by (simp add: take_Suc_conv_app_nth)
  with Suc show ?case by simp
qed

lemma walk_foldr: "walk next fs = foldr DoFilter fs next"
  by (simp add: walk_def walk_from_foldr)

lemma walk_Nil: "walk T [] = T"
  by (simp add: walk_foldr)

lemma walk_Cons: "walk T (f # fs) = DoFilter f (walk T fs)"
  by (simp add: walk_foldr)

lemma walk_append: "walk T (pre @ post) = walk (walk T post) pre"
  by (simp add: walk_foldr)

lemma Route_selected:
  "selectFilters (FilterSelectors ex) [] v = (Returned sel, v') \<Longrightarrow>
   Route ex v = deferP (AddMetric ''route'') (routeChain ex sel) v'"
  by (simp add: Route_def deferP_def bindP_def)

lemma walk_forwarding:
  "map DoFilter fs = map (\<lambda>pre next w. next (pre w)) pres \<Longrightarrow>
   walk T fs = (\<lambda>w. T (fold (\<lambda>pre. pre) pres w))"
proof (induction fs arbitrary: pres)
  case Nil
  then show ?case by (simp add: walk_Nil)
next
  case (Cons f fs)
  then obtain pre rest where p: "pres = pre # rest"
    and f: "DoFilter f = (\<lambda>next w. next (pre w))"
    and r: "map DoFilter fs = map (\<lambda>pre next w. next (pre w)) rest"
    by (cases pres) auto
  show ?case
    by (simp add: walk_Cons f p Cons.IH [OF r])
qed

lemma fold_preserves:
  "\<forall>pre\<in>set pres. \<forall>w. g (pre w) = g w \<Longrightarrow> g (fold (\<lambda>pre. pre) pres w) = g w"
  by (induction pres arbitrary: w) simp_all

lemma proc_AddMetric: "proc (AddMetric l v) = proc v"
  by (simp add: AddMetric_def)

lemma CtxErr_AddMetric: "CtxErr (ctx (AddMetric l v)) = CtxErr (ctx v)"
  by (simp add: AddMetric_def)

lemma CtxEndpoint_AddMetric: "CtxEndpoint (ctx (AddMetric l v)) = CtxEndpoint (ctx v)"
  by (simp add: AddMetric_def)

lemma doMetricEndpointFunc_result:
  "CtxEndpoint (ctx v) = Some ep \<Longrightarrow> fst (doMetricEndpointFunc err v) = Returned err"
  by (simp add: doMetricEndpointFunc_def Let_def)

lemma doMetricEndpointFunc_frame:
  "RouteDuration (proc (snd (doMetricEndpointFunc err v))) = RouteDuration (proc v)
   \<and> plug (proc (snd (doMetricEndpointFunc err v))) = plug (proc v)
   \<and> logs (proc (snd (doMetricEndpointFunc err v))) = logs (proc v)
   \<and> ctx (snd (doMetricEndpointFunc err v)) = ctx v"
  by (simp add: doMetricEndpointFunc_def Let_def split: option.splits)

lemmas demo_defs = demoExtensions_def demoSelector_def tagFilter_def denyFilter_def journal_def
  demoView_def demoContext_def demoProcess_def demoEndpoint_def demoService_def
  echoTransporter_def permissionDenied_def disabledFilter_def

lemmas route_defs = deferP_def bindP_def AddMetric_def doMetricEndpointFunc_def Inc_def Let_def

text \<open>
  C1. \<^verbatim>\<open>walk\<close> composes the filters \<open>[A, B, C]\<close> around the terminal step \<open>T\<close> as
  \<open>A(B(C(T)))\<close>: the first filter is outermost, and the filter at any position receives
  as \<^verbatim>\<open>next\<close> exactly the chain of the filters after it. A filter whose invoker returns
  an error without calling \<^verbatim>\<open>next\<close> makes the chain independent of every later filter
  and of the terminal step. \<^verbatim>\<open>Route\<close> runs this chain over the global filters followed
  by the filters the selectors returned, with the transport step as terminal.
\<close>

theorem route_composes_filter_chain:
  fixes T T' :: "'x FilterInvoker"
  shows
    "walk T [A, B, C] = DoFilter A (DoFilter B (DoFilter C T))
     \<and> walk T (f # fs) = DoFilter f (walk T fs)
     \<and> walk T (pre @ f # post) = walk (DoFilter f (walk T post)) pre
     \<and> ((\<forall>next v. DoFilter s next v = (Returned (Some (e v)), h v)) \<longrightarrow>
          walk T (s # post) = (\<lambda>v. (Returned (Some (e v)), h v))
          \<and> walk T (pre @ s # post) = walk T' (pre @ s # post'))
     \<and> (selectFilters (FilterSelectors ex) [] v = (Returned sel, v') \<longrightarrow>
          Route ex v =
            deferP (AddMetric ''route'')
              (bindP (walk (transport ex) (GlobalFilters ex @ sel)) doMetricEndpointFunc)
              (AddMetric ''selector'' v'))"
proof (intro conjI impI)
  show "walk T [A, B, C] = DoFilter A (DoFilter B (DoFilter C T))"
    by (simp add: walk_Cons walk_Nil)
  show "walk T (f # fs) = DoFilter f (walk T fs)"
    by (rule walk_Cons)
  show "walk T (pre @ f # post) = walk (DoFilter f (walk T post)) pre"
    by (simp add: walk_append walk_Cons)
next
  assume stop: "\<forall>next v. DoFilter s next v = (Returned (Some (e v)), h v)"
  then have s: "DoFilter s next = (\<lambda>v. (Returned (Some (e v)), h v))" for "next"
    by auto
  show "walk T (s # post) = (\<lambda>v. (Returned (Some (e v)), h v))"
    by (simp add: walk_Cons s)
  show "walk T (pre @ s # post) = walk T' (pre @ s # post')"
    by (simp add: walk_append walk_Cons s)
next
  assume "selectFilters (FilterSelectors ex) [] v = (Returned sel, v')"
  then have "Route ex v = deferP (AddMetric ''route'') (routeChain ex sel) v'"
    by (rule Route_selected)
  then show "Route ex v =
      deferP (AddMetric ''route'')
        (bindP (walk (transport ex) (GlobalFilters ex @ sel)) doMetricEndpointFunc)
        (AddMetric ''selector'' v')"
    by (simp add: deferP_def routeChain_def)
qed

text \<open>
  The chain on a request: with the global filters \<open>A\<close>, deny \<open>B\<close>, \<open>C\<close> and the selected
  filter \<open>S\<close>, only \<open>A\<close> and \<open>B\<close> run and the route returns the error of \<open>B\<close>; with
  \<open>A\<close>, \<open>B\<close> passing on, the order is \<open>A\<close>, \<open>B\<close>, \<open>S\<close>, transport.
\<close>

theorem route_composes_filter_chain_witness:
  "fst (Route (demoExtensions [tagFilter ''A'', denyFilter ''B'', tagFilter ''C''] [tagFilter ''S''])
        (demoView None))
     = Returned (Some permissionDenied)
   \<and> plug (proc (snd (Route (demoExtensions [tagFilter ''A'', denyFilter ''B'', tagFilter ''C'']
        [tagFilter ''S'']) (demoView None)))) = [''A'', ''B'']
   \<and> plug (proc (snd (Route (demoExtensions [tagFilter ''A'', tagFilter ''B''] [tagFilter ''S''])
        (demoView None))))
     = [''A'', ''B'', ''S'', ''transport'']
   \<and> walk (transport (demoExtensions [] [])) [tagFilter ''A'', denyFilter ''B'', tagFilter ''C'']
     = walk (\<lambda>v. (Panicked ''never'', v)) [tagFilter ''A'', denyFilter ''B'']"
proof -
  let ?D = "demoExtensions [tagFilter ''A'', denyFilter ''B'', tagFilter ''C''] [tagFilter ''S'']"
  let ?P = "demoExtensions [tagFilter ''A'', tagFilter ''B''] [tagFilter ''S'']"
  have selD: "selectFilters (FilterSelectors ?D) [] (demoView None)
      = (Returned [tagFilter ''S''], demoView None)"
    by (simp add: demoExtensions_def demoSelector_def)
  have selP: "selectFilters (FilterSelectors ?P) [] (demoView None)
      = (Returned [tagFilter ''S''], demoView None)"
    by (simp add: demoExtensions_def demoSelector_def)
  have stop: "\<forall>next v. DoFilter (denyFilter ''B'') next v
      = (Returned (Some permissionDenied), journal ''B'' v)"
    by (simp add: denyFilter_def)
  note chainD = route_composes_filter_chain [where ex = ?D and v = "demoView None"
      and sel = "[tagFilter ''S'']" and v' = "demoView None" and s = "denyFilter ''B''"
      and e = "\<lambda>v. permissionDenied" and h = "journal ''B''" and pre = "[tagFilter ''A'']"
      and post = "[tagFilter ''C'']" and post' = "[]" and T = "transport (demoExtensions [] [])"
      and T' = "\<lambda>v. (Panicked ''never'', v)"]
  note chainP = route_composes_filter_chain [where ex = ?P and v = "demoView None"
      and sel = "[tagFilter ''S'']" and v' = "demoView None"]
  have rD: "Route ?D (demoView None) =
      deferP (AddMetric ''route'')
        (bindP (walk (transport ?D) (GlobalFilters ?D @ [tagFilter ''S''])) doMetricEndpointFunc)
        (AddMetric ''selector'' (demoView None))"
    using chainD selD by blast
  have rP: "Route ?P (demoView None) =
      deferP (AddMetric ''route'')
        (bindP (walk (transport ?P) (GlobalFilters ?P @ [tagFilter ''S''])) doMetricEndpointFunc)
        (AddMetric ''selector'' (demoView None))"
    using chainP selP by blast
  have indep: "walk (transport (demoExtensions [] []))
        ([tagFilter ''A''] @ denyFilter ''B'' # [tagFilter ''C''])
      = walk (\<lambda>v. (Panicked ''never'', v)) ([tagFilter ''A''] @ denyFilter ''B'' # [])"
    using chainD stop by blast
  have 1: "fst (Route ?D (demoView None)) = Returned (Some permissionDenied)"
    unfolding rD by (simp add: walk_Cons walk_Nil route_defs demo_defs)
  have 2: "plug (proc (snd (Route ?D (demoView None)))) = [''A'', ''B'']"
    unfolding rD by (simp add: walk_Cons walk_Nil route_defs demo_defs)
  have 3: "plug (proc (snd (Route ?P (demoView None)))) = [''A'', ''B'', ''S'', ''transport'']"
    unfolding rP
    by (simp add: walk_Cons walk_Nil transport_def transportCall_def route_defs demo_defs)
  from 1 2 3 indep show ?thesis by simp
qed

section \<open>Cancellation before transport\<close>

text \<open>
  C2. When the cancellation token is cancelled at the moment the terminal transport step
  is reached, the step returns the \<^verbatim>\<open>CANCELED\<close> error (status 200, the cause as its
  underlying error) and leaves the state as it is: no transporter is looked up or called
  (the result is the same for every extension registry) and nothing is observed. When
  every filter of the chain forwards (it runs a step of its own \<open>pre\<close>, which leaves the
  token, the endpoint and the histogram alone, and returns whatever \<^verbatim>\<open>next\<close> returns; the
  disabled permission filter, which hands \<^verbatim>\<open>next\<close> back, is the case of an empty step),
  \<^verbatim>\<open>Route\<close> returns that error, adds no histogram observation, and the components'
  state is what the filters' own steps made of it.
\<close>

theorem route_cancelled_before_transport:
  assumes cancelled: "CtxErr (ctx v) = Some cause"
  shows
    "transport ex v =
       (Returned (Some \<lparr>StatusCode = 200, ErrorCode = ''ROUTE:TRANSPORT/B:CANCELED'',
          Message = [], Header = [], CauseError = Some cause, Internal = None\<rparr>), v)
     \<and> transport ex v = transport ex' v
     \<and> (selectFilters (FilterSelectors ex) [] v0 = (Returned sel, v)
          \<and> map DoFilter (GlobalFilters ex @ sel) = map (\<lambda>pre next w. next (pre w)) pres
          \<and> (\<forall>pre\<in>set pres. \<forall>w. CtxErr (ctx (pre w)) = CtxErr (ctx w)
                \<and> CtxEndpoint (ctx (pre w)) = CtxEndpoint (ctx w)
                \<and> RouteDuration (proc (pre w)) = RouteDuration (proc w))
          \<and> CtxEndpoint (ctx v) = Some ep \<longrightarrow>
        fst (Route ex v0) = Returned (Some (canceledError cause))
        \<and> RouteDuration (proc (snd (Route ex v0))) = RouteDuration (proc v)
        \<and> plug (proc (snd (Route ex v0)))
           = plug (proc (fold (\<lambda>pre. pre) pres (AddMetric ''selector'' v))))"
proof (intro conjI impI)
  show "transport ex v =
       (Returned (Some \<lparr>StatusCode = 200, ErrorCode = ''ROUTE:TRANSPORT/B:CANCELED'',
          Message = [], Header = [], CauseError = Some cause, Internal = None\<rparr>), v)"
    using cancelled by (simp add: transport_def canceledError_def StatusOK_def)
  show "transport ex v = transport ex' v"
    using cancelled by (simp add: transport_def)
next
  assume h: "selectFilters (FilterSelectors ex) [] v0 = (Returned sel, v)
          \<and> map DoFilter (GlobalFilters ex @ sel) = map (\<lambda>pre next w. next (pre w)) pres
          \<and> (\<forall>pre\<in>set pres. \<forall>w. CtxErr (ctx (pre w)) = CtxErr (ctx w)
                \<and> CtxEndpoint (ctx (pre w)) = CtxEndpoint (ctx w)
                \<and> RouteDuration (proc (pre w)) = RouteDuration (proc w))
          \<and> CtxEndpoint (ctx v) = Some ep"
  let ?v1 = "fold (\<lambda>pre. pre) pres (AddMetric ''selector'' v)"
  let ?m = "doMetricEndpointFunc (Some (canceledError cause)) ?v1"
  from h have w: "walk (transport ex) (GlobalFilters ex @ sel)
      = (\<lambda>w. transport ex (fold (\<lambda>pre. pre) pres w))"
    by (intro walk_forwarding) blast
  have ce: "CtxErr (ctx ?v1) = Some cause"
    using h cancelled fold_preserves [of pres "\<lambda>w. CtxErr (ctx w)" "AddMetric ''selector'' v"]
    by (simp add: CtxErr_AddMetric)
  have e: "CtxEndpoint (ctx ?v1) = Some ep"
    using h fold_preserves [of pres "\<lambda>w. CtxEndpoint (ctx w)" "AddMetric ''selector'' v"]
    by (simp add: CtxEndpoint_AddMetric)
  have d: "RouteDuration (proc ?v1) = RouteDuration (proc v)"
    using h fold_preserves [of pres "\<lambda>w. RouteDuration (proc w)" "AddMetric ''selector'' v"]
    by (simp add: proc_AddMetric)
  have c: "transport ex ?v1 = (Returned (Some (canceledError cause)), ?v1)"
    using ce by (simp add: transport_def)
  have r: "Route ex v0 = (fst ?m, AddMetric ''route'' (snd ?m))"
    using h by (simp add: Route_selected routeChain_def w deferP_def bindP_def c split: prod.splits)
  show "fst (Route ex v0) = Returned (Some (canceledError cause))"
    by (simp add: r doMetricEndpointFunc_result [OF e])
  show "RouteDuration (proc (snd (Route ex v0))) = RouteDuration (proc v)"
    by (simp add: r proc_AddMetric doMetricEndpointFunc_frame d)
  show "plug (proc (snd (Route ex v0))) = plug (proc ?v1)"
    by (simp add: r proc_AddMetric doMetricEndpointFunc_frame)
qed

text \<open>The cancelled request against the live one, through the filters \<open>A\<close>, a disabled
  one and \<open>S\<close>: the filters run both times, the transporter runs and is observed only
  for the live request.\<close>

theorem route_cancelled_before_transport_witness:
  "transport (demoExtensions [] []) (demoView (Some ''context canceled'')) =
     (Returned (Some \<lparr>StatusCode = 200, ErrorCode = ''ROUTE:TRANSPORT/B:CANCELED'',
        Message = [], Header = [], CauseError = Some ''context canceled'', Internal = None\<rparr>),
      demoView (Some ''context canceled''))
   \<and> fst (Route (demoExtensions [tagFilter ''A'', disabledFilter ''permission_filter''] [tagFilter ''S''])
        (demoView (Some ''context canceled'')))
     = Returned (Some (canceledError ''context canceled''))
   \<and> RouteDuration (proc (snd (Route
        (demoExtensions [tagFilter ''A'', disabledFilter ''permission_filter''] [tagFilter ''S''])
        (demoView (Some ''context canceled''))))) = []
   \<and> plug (proc (snd (Route
        (demoExtensions [tagFilter ''A'', disabledFilter ''permission_filter''] [tagFilter ''S''])
        (demoView (Some ''context canceled''))))) = [''A'', ''S'']
   \<and> plug (proc (snd (Route
        (demoExtensions [tagFilter ''A'', disabledFilter ''permission_filter''] [tagFilter ''S''])
        (demoView None)))) = [''A'', ''S'', ''transport'']
   \<and> RouteDuration (proc (snd (Route
        (demoExtensions [tagFilter ''A'', disabledFilter ''permission_filter''] [tagFilter ''S''])
        (demoView None)))) = [(''Transporter'', ''http'')]"
proof -
  let ?ex = "demoExtensions [tagFilter ''A'', disabledFilter ''permission_filter''] [tagFilter ''S'']"
  let ?v = "demoView (Some ''context canceled'')"
  let ?pres = "[journal ''A'', (\<lambda>w. w), journal ''S'']"
  have c: "CtxErr (ctx ?v) = Some ''context canceled''"
    by (simp add: demoView_def demoContext_def)
  have h: "selectFilters (FilterSelectors ?ex) [] ?v = (Returned [tagFilter ''S''], ?v)
      \<and> map DoFilter (GlobalFilters ?ex @ [tagFilter ''S'']) = map (\<lambda>pre next w. next (pre w)) ?pres
      \<and> (\<forall>pre\<in>set ?pres. \<forall>w. CtxErr (ctx (pre w)) = CtxErr (ctx w)
            \<and> CtxEndpoint (ctx (pre w)) = CtxEndpoint (ctx w)
            \<and> RouteDuration (proc (pre w)) = RouteDuration (proc w))
      \<and> CtxEndpoint (ctx ?v) = Some demoEndpoint"
    by (simp add: demo_defs)
  note t = route_cancelled_before_transport [where v = ?v and cause = "''context canceled''"
      and ex = ?ex and v0 = ?v and sel = "[tagFilter ''S'']" and ep = demoEndpoint
      and pres = ?pres, OF c]
  note t0 = route_cancelled_before_transport [where v = ?v and cause = "''context canceled''"
      and ex = "demoExtensions [] []", OF c]
  have 1: "fst (Route ?ex ?v) = Returned (Some (canceledError ''context canceled''))
      \<and> RouteDuration (proc (snd (Route ?ex ?v))) = RouteDuration (proc ?v)
      \<and> plug (proc (snd (Route ?ex ?v)))
         = plug (proc (fold (\<lambda>pre. pre) ?pres (AddMetric ''selector'' ?v)))"
    using t h by blast
  have 2: "RouteDuration (proc ?v) = []
      \<and> plug (proc (fold (\<lambda>pre. pre) ?pres (AddMetric ''selector'' ?v))) = [''A'', ''S'']"
    by (simp add: demo_defs AddMetric_def)
  have 3: "plug (proc (snd (Route ?ex (demoView None)))) = [''A'', ''S'', ''transport'']
      \<and> RouteDuration (proc (snd (Route ?ex (demoView None)))) = [(''Transporter'', ''http'')]"
    by (simp add: Route_def routeChain_def walk_Cons walk_Nil transport_def transportCall_def
        route_defs demo_defs)
  from t0 1 2 3 show ?thesis by simp
qed

section \<open>Context pooling and panic recovery\<close>

lemma handleBody_pool:
  "poolEvents (snd (handleBody eng webc rid ep st)) = poolEvents st @ [AcquireContext, ReleaseContext]
   \<and> (\<exists>c. ctxPool (snd (handleBody eng webc rid ep st)) = Release c # drop 1 (ctxPool st))"
  by (auto simp: handleBody_def acquireContext_def releaseContext_def
      split: prod.splits list.splits)

lemma acquireContext_process: "process (snd (acquireContext eng rid webc ep st)) = process st"
  by (simp add: acquireContext_def split: list.splits)

lemma routeAndRespond_panics:
  assumes "fst (runHooks (ctxHooks eng) webc (traceLog ''HttpServeEngine route start'' [] v)) = Panicked p
     \<or> (fst (runHooks (ctxHooks eng) webc (traceLog ''HttpServeEngine route start'' [] v)) = Returned ()
        \<and> fst (Route (router eng)
              (snd (runHooks (ctxHooks eng) webc (traceLog ''HttpServeEngine route start'' [] v))))
            = Panicked p)
     \<or> (fst (runHooks (ctxHooks eng) webc (traceLog ''HttpServeEngine route start'' [] v)) = Returned ()
        \<and> (\<exists>v2. Route (router eng)
              (snd (runHooks (ctxHooks eng) webc (traceLog ''HttpServeEngine route start'' [] v)))
            = (Returned None, v2)
          \<and> fst (responseWriter eng webc rid (RespHeaders (CtxResponse (ctx v2)))
                (RespStatusCode (CtxResponse (ctx v2))) (RespBody (CtxResponse (ctx v2))) (proc v2))
            = Panicked p))"
  shows "fst (routeAndRespond eng webc rid v) = Panicked p"
  using assms
  by (auto simp: routeAndRespond_def Let_def split: prod.splits outcome.splits option.splits)

lemma handleBody_panics:
  "fst (routeAndRespond eng webc rid
      \<lparr>ctx = fst (acquireContext eng rid webc ep st), proc = process st\<rparr>) = Panicked p \<Longrightarrow>
   fst (handleBody eng webc rid ep st) = Panicked p"
  by (cases "acquireContext eng rid webc ep st")
     (use acquireContext_process [of eng rid webc ep st] in
       \<open>auto simp: handleBody_def split: prod.splits\<close>)

lemmas engine_defs = HandleEndpointRequest_def handleBody_def acquireContext_def
  releaseContext_def Release_def Reattach_def routeAndRespond_def traceLog_def endcall_def
  addLog_def recoverLog_def Route_def routeChain_def transport_def transportCall_def
  demoEngine_def demoState_def blankContext_def demoWebc_def panicExtensions_def
  panicTransporter_def demoHook_def panicHook_def demoWriter_def panicWriter_def
  panicFilter_def StatusOK_def Itoa_def natDigits.simps

lemmas run_defs = engine_defs route_defs demo_defs walk_Cons walk_Nil



text \<open>
  C4 (as the code has it). A panic raised while the request is handled, by a context
  hook, inside \<^verbatim>\<open>Route\<close> (a selector, a filter, the transporter) or by the response writer,
  is recovered by the outermost deferred function of \<^verbatim>\<open>HandleEndpointRequest\<close>: the panic
  value and the stack are the last two lines of the log, under the request id, the
  context has been released, and the handler returns \<^verbatim>\<open>nil\<close>; it does not produce a
  \<^verbatim>\<open>ServeError\<close>.
\<close>

theorem recovered_panic_returns_nil:
  assumes v0: "v0 = traceLog ''HttpServeEngine route start'' []
        \<lparr>ctx = fst (acquireContext eng rid webc ep st), proc = process st\<rparr>"
    and h: "h = runHooks (ctxHooks eng) webc v0"
    and panic: "fst h = Panicked p
      \<or> (fst h = Returned () \<and> fst (Route (router eng) (snd h)) = Panicked p)
      \<or> (fst h = Returned ()
         \<and> (\<exists>v2. Route (router eng) (snd h) = (Returned None, v2)
              \<and> fst (responseWriter eng webc rid (RespHeaders (CtxResponse (ctx v2)))
                    (RespStatusCode (CtxResponse (ctx v2))) (RespBody (CtxResponse (ctx v2)))
                    (proc v2)) = Panicked p))"
  shows "fst (HandleEndpointRequest eng webc rid ep st) = None
     \<and> (\<exists>older. logs (process (snd (HandleEndpointRequest eng webc rid ep st)))
          = older @ [LogEntry ''error'' rid ''HttpServeEngine panics'' [p],
                     LogEntry ''error'' rid ''debug.Stack'' []])
     \<and> poolEvents (snd (HandleEndpointRequest eng webc rid ep st))
        = poolEvents st @ [AcquireContext, ReleaseContext]"
proof -
  have "fst (routeAndRespond eng webc rid
      \<lparr>ctx = fst (acquireContext eng rid webc ep st), proc = process st\<rparr>) = Panicked p"
    using panic unfolding h v0 by (rule routeAndRespond_panics)
  then have "fst (handleBody eng webc rid ep st) = Panicked p"
    by (rule handleBody_panics)
  then obtain st' where b: "handleBody eng webc rid ep st = (Panicked p, st')"
    by (cases "handleBody eng webc rid ep st") simp
  have "poolEvents st' = poolEvents st @ [AcquireContext, ReleaseContext]"
    using handleBody_pool [of eng webc rid ep st] b by simp
  then show ?thesis
    by (simp add: HandleEndpointRequest_def b recoverLog_def addLog_def)
qed

text \<open>A transporter that panics: the body panics and the handler's result is \<^verbatim>\<open>nil\<close>,
  not an internal-error \<^verbatim>\<open>ServeError\<close>.\<close>

theorem panic_yields_no_serve_error:
  "fst (handleBody (demoEngine panicExtensions [demoHook] demoWriter)
      demoWebc ''r1'' demoEndpoint demoState) = Panicked ''transport down''
   \<and> fst (HandleEndpointRequest (demoEngine panicExtensions [demoHook] demoWriter)
      demoWebc ''r1'' demoEndpoint demoState) = None"
  by (simp add: run_defs)

text \<open>A filter, a context hook and the response writer that panic: each time the
  handler returns \<^verbatim>\<open>nil\<close>, and the log ends with the panic value and the stack under the
  request id.\<close>

theorem recovered_panic_returns_nil_witness:
  "fst (HandleEndpointRequest (demoEngine (demoExtensions [panicFilter ''P''] []) [demoHook] demoWriter)
      demoWebc ''r1'' demoEndpoint demoState) = None
   \<and> (\<exists>older. logs (process (snd (HandleEndpointRequest
        (demoEngine (demoExtensions [panicFilter ''P''] []) [demoHook] demoWriter)
        demoWebc ''r1'' demoEndpoint demoState)))
      = older @ [LogEntry ''error'' ''r1'' ''HttpServeEngine panics'' [''boom''],
                 LogEntry ''error'' ''r1'' ''debug.Stack'' []])
   \<and> fst (HandleEndpointRequest (demoEngine (demoExtensions [] []) [panicHook] demoWriter)
      demoWebc ''r1'' demoEndpoint demoState) = None
   \<and> fst (HandleEndpointRequest (demoEngine (demoExtensions [] []) [demoHook] panicWriter)
      demoWebc ''r1'' demoEndpoint demoState) = None"
proof -
  let ?F = "demoEngine (demoExtensions [panicFilter ''P''] []) [demoHook] demoWriter"
  let ?H = "demoEngine (demoExtensions [] []) [panicHook] demoWriter"
  let ?W = "demoEngine (demoExtensions [] []) [demoHook] panicWriter"
  let ?v0 = "\<lambda>eng. traceLog ''HttpServeEngine route start'' []
      \<lparr>ctx = fst (acquireContext eng ''r1'' demoWebc demoEndpoint demoState), proc = process demoState\<rparr>"
  have f: "fst (runHooks (ctxHooks ?F) demoWebc (?v0 ?F)) = Returned ()
      \<and> fst (Route (router ?F) (snd (runHooks (ctxHooks ?F) demoWebc (?v0 ?F)))) = Panicked ''boom''"
    by (simp add: run_defs)
  have hk: "fst (runHooks (ctxHooks ?H) demoWebc (?v0 ?H)) = Panicked ''hook failed''"
    by (simp add: run_defs)
  have w: "fst (runHooks (ctxHooks ?W) demoWebc (?v0 ?W)) = Returned ()
      \<and> (\<exists>v2. Route (router ?W) (snd (runHooks (ctxHooks ?W) demoWebc (?v0 ?W))) = (Returned None, v2)
           \<and> fst (responseWriter ?W demoWebc ''r1'' (RespHeaders (CtxResponse (ctx v2)))
                 (RespStatusCode (CtxResponse (ctx v2))) (RespBody (CtxResponse (ctx v2)))
                 (proc v2)) = Panicked ''broken pipe'')"
    by (simp add: run_defs)
  from recovered_panic_returns_nil [OF refl refl, of ?F demoWebc "''r1''" demoEndpoint demoState "''boom''"]
    recovered_panic_returns_nil [OF refl refl, of ?H demoWebc "''r1''" demoEndpoint demoState "''hook failed''"]
    recovered_panic_returns_nil [OF refl refl, of ?W demoWebc "''r1''" demoEndpoint demoState "''broken pipe''"]
    f hk w
  show ?thesis by blast
qed

section \<open>Version miss\<close>




section \<open>Endpoint events\<close>












section \<open>Service events\<close>

text \<open>
  C7. After a \<^verbatim>\<open>Removed\<close> service event the directory has no entry under the
  \<^verbatim>\<open>ServiceId\<close> of the event's service, none under its \<^verbatim>\<open>AliasId\<close> when that is not
  empty, and every other entry is as before.
\<close>

theorem removed_service_unresolvable:
  "services (HandleBackendServiceEvent r (BackendServiceEvent EventTypeRemoved svc) st)
      (ServiceId svc) = None
   \<and> (AliasId svc \<noteq> [] \<longrightarrow>
        services (HandleBackendServiceEvent r (BackendServiceEvent EventTypeRemoved svc) st)
          (AliasId svc) = None)
   \<and> (\<forall>key. key \<noteq> ServiceId svc \<and> key \<noteq> AliasId svc \<longrightarrow>
        services (HandleBackendServiceEvent r (BackendServiceEvent EventTypeRemoved svc) st) key
        = services st key)"
  by (simp add: HandleBackendServiceEvent_def RemoveBackendService_def eventLog_def Let_def)

lemmas service_defs = HandleBackendServiceEvent_def RemoveBackendService_def storeWithAlias_def
  StoreBackendService_def StoreBackendServiceById_def eventLog_def initArguments_def Let_def
  emptyRegistry_def demoService_def demoResolvers_def

text \<open>A service with an alias is added, then removed: first both keys resolve to it,
  then neither does.\<close>

theorem removed_service_unresolvable_witness:
  "services (HandleBackendServiceEvent demoResolvers (BackendServiceEvent EventTypeAdded demoService)
      emptyRegistry) ''svc'' = Some demoService
   \<and> services (HandleBackendServiceEvent demoResolvers (BackendServiceEvent EventTypeAdded demoService)
      emptyRegistry) ''alias'' = Some demoService
   \<and> services (HandleBackendServiceEvent demoResolvers (BackendServiceEvent EventTypeRemoved demoService)
      (HandleBackendServiceEvent demoResolvers (BackendServiceEvent EventTypeAdded demoService)
        emptyRegistry)) ''svc'' = None
   \<and> services (HandleBackendServiceEvent demoResolvers (BackendServiceEvent EventTypeRemoved demoService)
      (HandleBackendServiceEvent demoResolvers (BackendServiceEvent EventTypeAdded demoService)
        emptyRegistry)) ''alias'' = None"
proof -
  let ?st = "HandleBackendServiceEvent demoResolvers (BackendServiceEvent EventTypeAdded demoService)
      emptyRegistry"
  have a: "services ?st ''svc'' = Some demoService \<and> services ?st ''alias'' = Some demoService"
    by (simp add: service_defs)
  have i: "ServiceId demoService = ''svc'' \<and> AliasId demoService = ''alias''"
    by (simp add: demoService_def)
  from removed_service_unresolvable [of demoResolvers demoService ?st] a i show ?thesis
    by simp
qed

section \<open>Dynamic filters\<close>

lemmas config_defs = GetString_def GetInt_def GetBool_def lookupValue_def SetDefaults_def
  IsDisabled_def NewConfiguration_def

lemma dynamicFiltersFrom_append:
  "dynamicFiltersFrom reg (pre @ rest) out =
     (case dynamicFiltersFrom reg pre out of
        Returned (Inr out') \<Rightarrow> dynamicFiltersFrom reg rest out'
      | failed \<Rightarrow> failed)"
proof (induction pre arbitrary: out)
  case Nil
  then show ?case by simp
next
  case (Cons config pre)
  show ?case
    by (simp add: Let_def Cons.IH split: outcome.splits option.splits)
qed

lemma dynamicFiltersFrom_items:
  "dynamicFiltersFrom reg entries out = Returned (Inr items) \<Longrightarrow> item \<in> set items \<Longrightarrow>
   item \<in> set out \<or>
   (Config item \<in> set entries \<and> \<not> IsDisabled (Config item)
    \<and> GetString (Config item) dynConfigKeyFilterId \<noteq> []
    \<and> FactoryByType reg (GetString (Config item) dynConfigKeyFilterType) = Returned (Some (Factory item)))"
proof (induction entries arbitrary: out)
  case Nil
  then show ?case by simp
next
  case (Cons config entries)
  show ?case
  proof (cases "GetString config dynConfigKeyFilterId = [] \<or> IsDisabled config")
    case True
    with Cons.prems(1) have "dynamicFiltersFrom reg entries out = Returned (Inr items)"
      by (auto simp: Let_def split: if_splits)
    from Cons.IH [OF this Cons.prems(2)] show ?thesis by auto
  next
    case False
    with Cons.prems(1) obtain factory where
      f: "FactoryByType reg (GetString config dynConfigKeyFilterType) = Returned (Some factory)"
      and r: "dynamicFiltersFrom reg entries
          (out @ [\<lparr>FilterID = GetString config dynConfigKeyFilterId,
                   TypeId = GetString config dynConfigKeyFilterType,
                   Config = config, Factory = factory\<rparr>]) = Returned (Inr items)"
      by (auto simp: Let_def split: outcome.splits option.splits)
    from Cons.IH [OF r Cons.prems(2)] False f show ?thesis by auto
  qed
qed

text \<open>
  C9. In the loop of \<^verbatim>\<open>dynamicFilters\<close> an entry with an empty \<^verbatim>\<open>id\<close> is passed over, and
  so is an entry with \<^verbatim>\<open>disabled=true\<close>; an entry with an id, not disabled, for whose
  \<^verbatim>\<open>type\<close> \<^verbatim>\<open>ext.FactoryByType\<close> finds no factory ends the loading with the error
  \<^verbatim>\<open>FilterFactory not found\<close>, wherever it stands after entries that loaded. Every item
  of a successful loading comes from an entry that has an id and is not disabled, so no
  instance is made from another one. When the transporters and the static filters
  initialised, \<^verbatim>\<open>Init\<close> returns the error of the loading.
\<close>

theorem dynamic_filter_entries:
  "(GetString config dynConfigKeyFilterId = [] \<longrightarrow>
      dynamicFiltersFrom reg (config # rest) out = dynamicFiltersFrom reg rest out)
   \<and> (IsDisabled config \<longrightarrow>
      dynamicFiltersFrom reg (config # rest) out = dynamicFiltersFrom reg rest out)
   \<and> (GetString config dynConfigKeyFilterId \<noteq> [] \<and> \<not> IsDisabled config
       \<and> FactoryByType reg (GetString config dynConfigKeyFilterType) = Returned None \<longrightarrow>
      dynamicFiltersFrom reg (config # rest) out
        = Returned (Inl (factoryNotFound (GetString config dynConfigKeyFilterType)
             (GetString config dynConfigKeyFilterId))))
   \<and> (dynamicFiltersFrom reg pre [] = Returned (Inr out) \<longrightarrow>
      dynamicFilters reg (g\<lparr>dynfilterEntries := pre @ config # rest\<rparr>)
        = dynamicFiltersFrom reg (config # rest) out)
   \<and> (dynamicFilters reg g = Returned (Inr items) \<longrightarrow>
      (\<forall>item\<in>set items. Config item \<in> set (dynfilterEntries g) \<and> \<not> IsDisabled (Config item)
         \<and> GetString (Config item) dynConfigKeyFilterId \<noteq> []))
   \<and> (dynamicFilters (Factories ex) g = Returned (Inl err)
       \<and> initTransporters g (Transporters ex) st = (Returned None, st1)
       \<and> initStaticFilters g (StaticGlobalFilters ex @ selectiveFilters st1) st1 = (Returned None, st2)
       \<longrightarrow> Init ex g st = (Returned (Some err), st2))"
proof (intro conjI impI)
  show "GetString config dynConfigKeyFilterId = [] \<Longrightarrow>
      dynamicFiltersFrom reg (config # rest) out = dynamicFiltersFrom reg rest out"
    by simp
  show "IsDisabled config \<Longrightarrow>
      dynamicFiltersFrom reg (config # rest) out = dynamicFiltersFrom reg rest out"
    by (simp add: Let_def)
  show "GetString config dynConfigKeyFilterId \<noteq> [] \<and> \<not> IsDisabled config
       \<and> FactoryByType reg (GetString config dynConfigKeyFilterType) = Returned None \<Longrightarrow>
      dynamicFiltersFrom reg (config # rest) out
        = Returned (Inl (factoryNotFound (GetString config dynConfigKeyFilterType)
             (GetString config dynConfigKeyFilterId)))"
    by (simp add: Let_def)
  show "dynamicFiltersFrom reg pre [] = Returned (Inr out) \<Longrightarrow>
      dynamicFilters reg (g\<lparr>dynfilterEntries := pre @ config # rest\<rparr>)
        = dynamicFiltersFrom reg (config # rest) out"
    by (simp add: dynamicFilters_def dynamicFiltersFrom_append)
  show "dynamicFilters reg g = Returned (Inr items) \<Longrightarrow>
      \<forall>item\<in>set items. Config item \<in> set (dynfilterEntries g) \<and> \<not> IsDisabled (Config item)
         \<and> GetString (Config item) dynConfigKeyFilterId \<noteq> []"
    using dynamicFiltersFrom_items [of reg "dynfilterEntries g" "[]" items]
    by (auto simp: dynamicFilters_def)
  show "dynamicFilters (Factories ex) g = Returned (Inl err)
       \<and> initTransporters g (Transporters ex) st = (Returned None, st1)
       \<and> initStaticFilters g (StaticGlobalFilters ex @ selectiveFilters st1) st1 = (Returned None, st2)
       \<Longrightarrow> Init ex g st = (Returned (Some err), st2)"
    by (simp add: Init_def)
qed

text \<open>An entry without id, a disabled one and a good one load one item; with an entry of
  unknown type among them the loading and \<^verbatim>\<open>Init\<close> fail with its error.\<close>

lemmas init_defs = dynamicFilters_def FactoryByType_def demoFactories_def dynEntry_def
  demoGlobalConfig_def demoInitExtensions_def demoComponent_def factoryNotFound_def
  dynConfigKeyFilterId_def dynConfigKeyFilterType_def AddInitHook_def NamespaceTransporters_def
  Let_def

theorem dynamic_filter_entries_witness:
  "dynamicFilters demoFactories (demoGlobalConfig
      [dynEntry [] ''t1'' False, dynEntry ''f1'' ''t1'' True, dynEntry ''f2'' ''t1'' False])
     = Returned (Inr [\<lparr>FilterID = ''f2'', TypeId = ''t1'', Config = dynEntry ''f2'' ''t1'' False,
                       Factory = demoComponent ''t1''\<rparr>])
   \<and> dynamicFilters demoFactories (demoGlobalConfig
      [dynEntry [] ''t1'' False, dynEntry ''f1'' ''t1'' True, dynEntry ''f3'' ''nope'' False,
       dynEntry ''f2'' ''t1'' False])
     = Returned (Inl ''FilterFactory not found, filter-type: nope, filter-id: f3'')
   \<and> Init demoInitExtensions (demoGlobalConfig
      [dynEntry [] ''t1'' False, dynEntry ''f1'' ''t1'' True, dynEntry ''f3'' ''nope'' False,
       dynEntry ''f2'' ''t1'' False]) \<lparr>hookFuncs = [], selectiveFilters = []\<rparr>
     = (Returned (Some ''FilterFactory not found, filter-type: nope, filter-id: f3''),
        \<lparr>hookFuncs = [demoComponent ''http'', demoComponent ''permission_filter''],
         selectiveFilters = []\<rparr>)
   \<and> Init demoInitExtensions (demoGlobalConfig
      [dynEntry [] ''t1'' False, dynEntry ''f1'' ''t1'' True, dynEntry ''f2'' ''t1'' False])
      \<lparr>hookFuncs = [], selectiveFilters = []\<rparr>
     = (Returned None,
        \<lparr>hookFuncs = [demoComponent ''http'', demoComponent ''permission_filter'',
                      demoComponent ''t1''],
         selectiveFilters = [demoComponent ''t1'']\<rparr>)"
proof -
  let ?e0 = "dynEntry [] ''t1'' False" and ?e1 = "dynEntry ''f1'' ''t1'' True"
  let ?e2 = "dynEntry ''f2'' ''t1'' False" and ?e3 = "dynEntry ''f3'' ''nope'' False"
  let ?bad = "demoGlobalConfig [?e0, ?e1, ?e3, ?e2]"
  let ?st = "\<lparr>hookFuncs = [], selectiveFilters = []\<rparr>"
  let ?st2 = "\<lparr>hookFuncs = [demoComponent ''http'', demoComponent ''permission_filter''],
      selectiveFilters = []\<rparr>"
  let ?err = "''FilterFactory not found, filter-type: nope, filter-id: f3''"
  have noid: "GetString ?e0 dynConfigKeyFilterId = []"
    by (simp add: init_defs config_defs)
  have off: "IsDisabled ?e1"
    by (simp add: init_defs config_defs)
  have unknown: "GetString ?e3 dynConfigKeyFilterId \<noteq> [] \<and> \<not> IsDisabled ?e3
      \<and> FactoryByType demoFactories (GetString ?e3 dynConfigKeyFilterType) = Returned None"
    by (simp add: init_defs config_defs)
  have msg: "factoryNotFound (GetString ?e3 dynConfigKeyFilterType)
      (GetString ?e3 dynConfigKeyFilterId) = ?err"
    by (simp add: init_defs config_defs)
  have skip0: "dynamicFiltersFrom demoFactories (?e0 # rest) out
      = dynamicFiltersFrom demoFactories rest out" for rest out
    using dynamic_filter_entries [of ?e0 demoFactories rest out] noid by blast
  have skip1: "dynamicFiltersFrom demoFactories (?e1 # rest) out
      = dynamicFiltersFrom demoFactories rest out" for rest out
    using dynamic_filter_entries [of ?e1 demoFactories rest out] off by blast
  have pre: "dynamicFiltersFrom demoFactories [?e0, ?e1] [] = Returned (Inr [])"
    by (simp only: skip0 skip1 dynamicFiltersFrom.simps(1))
  have g: "(demoGlobalConfig [])\<lparr>dynfilterEntries := [?e0, ?e1] @ ?e3 # [?e2]\<rparr> = ?bad"
    by (simp add: demoGlobalConfig_def)
  have fail: "dynamicFilters demoFactories ?bad = Returned (Inl ?err)"
    using dynamic_filter_entries [of ?e3 demoFactories "[?e2]" "[]" "[?e0, ?e1]" "demoGlobalConfig []"]
      unknown pre msg
    unfolding g by metis
  have t: "initTransporters ?bad (Transporters demoInitExtensions) ?st
      = (Returned None, \<lparr>hookFuncs = [demoComponent ''http''], selectiveFilters = []\<rparr>)"
    by (simp add: init_defs)
  have f: "initStaticFilters ?bad (StaticGlobalFilters demoInitExtensions
        @ selectiveFilters \<lparr>hookFuncs = [demoComponent ''http''], selectiveFilters = []\<rparr>)
        \<lparr>hookFuncs = [demoComponent ''http''], selectiveFilters = []\<rparr> = (Returned None, ?st2)"
    by (simp add: init_defs config_defs)
  have d: "Factories demoInitExtensions = demoFactories"
    by (simp add: demoInitExtensions_def)
  have init: "Init demoInitExtensions ?bad ?st = (Returned (Some ?err), ?st2)"
    using dynamic_filter_entries [where ex = demoInitExtensions and g = ?bad and err = ?err
        and st = ?st and ?st1.0 = "\<lparr>hookFuncs = [demoComponent ''http''], selectiveFilters = []\<rparr>"
        and ?st2.0 = ?st2] fail t f
    unfolding d by blast
  have ok: "dynamicFilters demoFactories (demoGlobalConfig [?e0, ?e1, ?e2])
      = Returned (Inr [\<lparr>FilterID = ''f2'', TypeId = ''t1'', Config = ?e2,
                        Factory = demoComponent ''t1''\<rparr>])"
  proof -
    have "dynamicFiltersFrom demoFactories [?e0, ?e1, ?e2] []
        = dynamicFiltersFrom demoFactories [?e2] []"
      by (simp only: skip0 skip1)
    then show ?thesis
      by (simp add: init_defs config_defs)
  qed
  have loaded: "Init demoInitExtensions (demoGlobalConfig [?e0, ?e1, ?e2]) ?st
      = (Returned None,
         \<lparr>hookFuncs = [demoComponent ''http'', demoComponent ''permission_filter'',
                       demoComponent ''t1''],
          selectiveFilters = [demoComponent ''t1'']\<rparr>)"
    by (simp add: Init_def init_defs config_defs)
  from ok fail init loaded show ?thesis by simp
qed

section \<open>Server addresses\<close>

lemmas serve_defs = Startup_def StartServe_def startServer_def initialConfig_def demoServeSetup_def
  serverDefaults_def HttpWebServerConfigRootName_def HttpWebServerConfigKeyFeatureDebugEnable_def
  HttpWebServerConfigKeyFeatureDebugPort_def HttpWebServerConfigKeyAddress_def
  HttpWebServerConfigKeyPort_def HttpWebServerConfigKeyTlsCertFile_def
  HttpWebServerConfigKeyTlsKeyFile_def HttpWebServerConfigKeyManageAddress_def
  HttpWebServerConfigKeyManagePort_def Itoa_def natDigits.simps Let_def

lemma StartServe_http_address:
  "StartServe s cfg = Returned (Inr calls) \<Longrightarrow>
   calls ! 1 = (httpWebServer,
     GetString cfg HttpWebServerConfigKeyAddress @ '':'' @ Itoa (GetInt cfg HttpWebServerConfigKeyManagePort),
     GetString cfg HttpWebServerConfigKeyTlsCertFile, GetString cfg HttpWebServerConfigKeyTlsKeyFile)"
  by (auto simp: StartServe_def startServer_def Let_def split: if_splits option.splits)

text \<open>
  C5 (as the code has it). \<^verbatim>\<open>StartServe\<close> passes the key \<^verbatim>\<open>manage-port\<close> for the
  port of the public server. With \<^verbatim>\<open>manage-address\<close> 127.0.0.1 and \<^verbatim>\<open>manage-port\<close> 9527
  configured and \<^verbatim>\<open>address\<close>, \<^verbatim>\<open>port\<close> at their defaults 0.0.0.0 and 8080, the public
  server is started on 0.0.0.0:9527; with nothing configured it is started on 0.0.0.0:0,
  although \<^verbatim>\<open>port\<close> reads 8080.
\<close>

theorem public_server_binds_manage_port:
  "Startup (demoServeSetup [''manage-address'' \<mapsto> CfgString ''127.0.0.1'',
       ''manage-port'' \<mapsto> CfgInt 9527])
     = Returned (Inr [(manageWebServer, ''127.0.0.1:9527'', [], []),
                      (httpWebServer, ''0.0.0.0:9527'', [], [])])
   \<and> Startup (demoServeSetup Map.empty)
     = Returned (Inr [(manageWebServer, '':0'', [], []), (httpWebServer, ''0.0.0.0:0'', [], [])])
   \<and> GetInt (engineConfig (demoServeSetup Map.empty)) HttpWebServerConfigKeyPort = 8080"
  by (simp add: serve_defs config_defs)

end
